theory Spec2Isabelle
  imports Complex_Main
begin

section \<open>Metrics-instrumented proxy in front of an MLflow scoring server\<close>

text \<open>
  A shallow embedding of \<^verbatim>\<open>prometheus_exporter.py\<close> (handlers \<^verbatim>\<open>health\<close> and
  \<^verbatim>\<open>invocations\<close>) and of the handler \<^verbatim>\<open>predict\<close> of \<^verbatim>\<open>3.prometheus_exporter.py\<close>.
  The Prometheus registry is explicit state, passed in and returned updated. The upstream
  HTTP client is a parameter of each handler: a function from what the handler sends to
  either the response or the exception the call raises. The readings of
  \<^verbatim>\<open>time.perf_counter()\<close> are parameters as well. A string is the UTF-8 encoding of
  the Python text it stands for, one \<open>char\<close> a byte.
\<close>

subsection \<open>Python values\<close>

type_synonym bytes = string

text \<open>
  An exception as the handlers look at it: which \<^verbatim>\<open>except\<close> clause it matches, its
  class name \<^verbatim>\<open>type(e).__name__\<close> and its message \<^verbatim>\<open>str(e)\<close>. \<open>ConnectError\<close> is an
  \<^verbatim>\<open>httpx.ConnectError\<close>, the class \<^verbatim>\<open>invocations\<close> has a clause for. \<open>Timeout\<close> is a
  timeout of either client library: a \<^verbatim>\<open>requests.exceptions.Timeout\<close>, the class
  \<^verbatim>\<open>predict\<close> has a clause for, or an \<^verbatim>\<open>httpx.TimeoutException\<close>, which is no
  \<^verbatim>\<open>httpx.ConnectError\<close>, also when it is the \<^verbatim>\<open>ConnectTimeout\<close> raised while the
  connection is being set up. \<open>OtherException\<close> is every other \<^verbatim>\<open>Exception\<close>.
\<close>

datatype exc_class = ConnectError | Timeout | OtherException

datatype py_exception = PyExc (exc_class: exc_class) (exc_name: string) (exc_text: string)

text \<open>\<^verbatim>\<open>d.get(k, default)\<close> on a dictionary.\<close>

definition dict_get :: "('k \<rightharpoonup> 'v) \<Rightarrow> 'k \<Rightarrow> 'v \<Rightarrow> 'v" where
  "dict_get d k dflt = (case d k of None \<Rightarrow> dflt | Some v \<Rightarrow> v)"

text \<open>\<^verbatim>\<open>str(n)\<close> on an integer: decimal digits, with a minus sign when negative.\<close>

fun str_nat :: "nat \<Rightarrow> string" where
  "str_nat n = (if n < 10 then [char_of (48 + n)]
                else str_nat (n div 10) @ [char_of (48 + n mod 10)])"

declare str_nat.simps [simp del]

definition str_int :: "int \<Rightarrow> string" where
  "str_int i = (if i < 0 then CHR ''-'' # str_nat (nat (- i)) else str_nat (nat i))"


subsection \<open>Configuration\<close>

text \<open>The three module constants read from the environment at import time.\<close>

record config =
  MLFLOW_SCORING_URL :: string
  MODEL_NAME :: string
  MODEL_VERSION :: string

text \<open>The defaults of \<^verbatim>\<open>os.getenv\<close>.\<close>

definition default_config :: config where
  "default_config =
     \<lparr>MLFLOW_SCORING_URL = ''http://127.0.0.1:5001/invocations'',
      MODEL_NAME = ''creditscoring'',
      MODEL_VERSION = ''e62a3c7b79ff4917b875b53f82e4665e''\<rparr>"

subsection \<open>The metric registry\<close>

text \<open>
  Each metric is a family of children indexed by its label values; a child that was never
  touched reads as zero (a counter or gauge) or as no observation (a histogram). A
  histogram child is the sequence of the values observed so far: its count is the length
  and its sum the sum of that sequence.
\<close>

type_synonym labels2 = "string \<times> string"
type_synonym labels3 = "string \<times> string \<times> string"

record metrics =
  REQ_TOTAL :: "labels3 \<Rightarrow> nat"
  REQ_ERRORS :: "labels3 \<Rightarrow> nat"
  REQ_LATENCY :: "labels2 \<Rightarrow> real list"
  INPROGRESS :: "labels2 \<Rightarrow> int"
  UPSTREAM_UP :: "labels2 \<Rightarrow> int"
  PAYLOAD_BYTES :: "labels2 \<Rightarrow> nat list"

definition registry0 :: metrics where
  "registry0 =
     \<lparr>REQ_TOTAL = (\<lambda>_. 0), REQ_ERRORS = (\<lambda>_. 0), REQ_LATENCY = (\<lambda>_. []),
      INPROGRESS = (\<lambda>_. 0), UPSTREAM_UP = (\<lambda>_. 0), PAYLOAD_BYTES = (\<lambda>_. [])\<rparr>"

definition counter_inc :: "('l \<Rightarrow> nat) \<Rightarrow> 'l \<Rightarrow> ('l \<Rightarrow> nat)" where
  "counter_inc c l = c(l := c l + 1)"

definition gauge_inc :: "('l \<Rightarrow> int) \<Rightarrow> 'l \<Rightarrow> ('l \<Rightarrow> int)" where
  "gauge_inc g l = g(l := g l + 1)"

definition gauge_dec :: "('l \<Rightarrow> int) \<Rightarrow> 'l \<Rightarrow> ('l \<Rightarrow> int)" where
  "gauge_dec g l = g(l := g l - 1)"

definition gauge_set :: "('l \<Rightarrow> int) \<Rightarrow> 'l \<Rightarrow> int \<Rightarrow> ('l \<Rightarrow> int)" where
  "gauge_set g l v = g(l := v)"

definition observe :: "('l \<Rightarrow> 'a list) \<Rightarrow> 'l \<Rightarrow> 'a \<Rightarrow> ('l \<Rightarrow> 'a list)" where
  "observe h l v = h(l := h l @ [v])"

subsection \<open>Requests and responses of the proxy\<close>

text \<open>
  The inbound request: what \<^verbatim>\<open>await request.body()\<close> gives (the bytes, or the exception
  it raises, as when the client disconnects while the body is read) and the request
  headers, keyed by lower-case name.
\<close>

record request =
  body :: "py_exception + bytes"
  headers :: "string \<rightharpoonup> string"

text \<open>The upstream's response as \<^verbatim>\<open>httpx\<close> hands it over.\<close>

record upstream_response =
  r_status_code :: int
  r_content :: bytes
  r_headers :: "string \<rightharpoonup> string"

text \<open>
  What the handler returns: \<^verbatim>\<open>Response(content, status_code, media_type)\<close>;
  \<^verbatim>\<open>PlainTextResponse\<close> is the same with media type \<^verbatim>\<open>text/plain\<close>.
\<close>

record response =
  content :: bytes
  status_code :: int
  media_type :: string

text \<open>
  The constructor of Starlette's \<^verbatim>\<open>Response\<close> builds the \<^verbatim>\<open>content-type\<close> header it
  will send: the media type, with \<^verbatim>\<open>; charset=utf-8\<close> added when the media type starts
  with \<^verbatim>\<open>text/\<close> and its lower-case form does not contain \<^verbatim>\<open>charset=\<close>. It encodes
  that header as latin-1 and raises \<^verbatim>\<open>UnicodeEncodeError\<close> when a character is beyond
  U+00FF, which in UTF-8 is a byte from \<^verbatim>\<open>0xC4\<close> up. Lower-casing is done on the ASCII
  letters, which decides the test for \<^verbatim>\<open>charset=\<close>. The message of the exception, which
  names the character and its position, is cut to its fixed end.
\<close>

definition ascii_lower :: "char \<Rightarrow> char" where
  "ascii_lower c =
     (if (65::nat) \<le> of_char c \<and> of_char c \<le> (90::nat) then char_of (of_char c + (32::nat)) else c)"

fun contains :: "string \<Rightarrow> string \<Rightarrow> bool" where
  "contains sub [] = (sub = [])"
| "contains sub (c # cs) = (take (length sub) (c # cs) = sub \<or> contains sub cs)"

definition content_type_header :: "string \<Rightarrow> string" where
  "content_type_header mt =
     (if take 5 mt = ''text/'' \<and> \<not> contains ''charset='' (map ascii_lower mt)
      then mt @ ''; charset=utf-8'' else mt)"

definition latin1_encodable :: "string \<Rightarrow> bool" where
  "latin1_encodable s = list_all (\<lambda>c. of_char c < (196::nat)) s"

definition Response :: "bytes \<Rightarrow> int \<Rightarrow> string \<Rightarrow> py_exception + response" where
  "Response c code mt =
     (if latin1_encodable (content_type_header mt)
      then Inr \<lparr>content = c, status_code = code, media_type = mt\<rparr>
      else Inl (PyExc OtherException ''UnicodeEncodeError'' ''ordinal not in range(256)''))"

definition PlainTextResponse :: "string \<Rightarrow> int \<Rightarrow> response" where
  "PlainTextResponse text code = \<lparr>content = text, status_code = code, media_type = ''text/plain''\<rparr>"

text \<open>\<^verbatim>\<open>client.post(url, content=body, headers=headers)\<close> and \<^verbatim>\<open>client.get(url)\<close>.\<close>

type_synonym http_post = "string \<Rightarrow> bytes \<Rightarrow> (string \<rightharpoonup> string) \<Rightarrow> py_exception + upstream_response"

definition is_2xx :: "int \<Rightarrow> bool" where
  "is_2xx code = (200 \<le> code \<and> code < 300)"

definition model_labels :: "config \<Rightarrow> labels2" where
  "model_labels cfg = (MODEL_NAME cfg, MODEL_VERSION cfg)"

definition status_labels :: "config \<Rightarrow> string \<Rightarrow> labels3" where
  "status_labels cfg s = (MODEL_NAME cfg, MODEL_VERSION cfg, s)"

subsection \<open>The health probe\<close>



subsection \<open>The proxy handler\<close>

text \<open>
  Lines 96 to 103, before the \<^verbatim>\<open>try\<close>: the in-progress gauge goes up, the body is read,
  its length is observed, the outgoing header is built. An exception of the body read
  leaves the handler here, with the registry as it is at that point.
\<close>

definition invocations_receive ::
  "config \<Rightarrow> request \<Rightarrow> metrics \<Rightarrow> py_exception \<times> metrics + (bytes \<times> (string \<rightharpoonup> string)) \<times> metrics" where
  "invocations_receive cfg req m0 =
     (let m1 = m0\<lparr>INPROGRESS := gauge_inc (INPROGRESS m0) (model_labels cfg)\<rparr>
      in case body req of
           Inl e \<Rightarrow> Inl (e, m1)
         | Inr b \<Rightarrow>
             let m2 = m1\<lparr>PAYLOAD_BYTES := observe (PAYLOAD_BYTES m1) (model_labels cfg) (length b)\<rparr>;
                 hdrs = [''Content-Type'' \<mapsto> dict_get (headers req) ''content-type'' ''application/json'']
             in Inr ((b, hdrs), m2))"

text \<open>
  The body of the \<^verbatim>\<open>try\<close> once \<^verbatim>\<open>client.post\<close> has returned (lines 107 to 115). The
  last statement builds the response and can raise, with the metrics already recorded.
\<close>

definition on_response ::
  "config \<Rightarrow> real \<Rightarrow> upstream_response \<Rightarrow> metrics \<Rightarrow> (py_exception + response) \<times> metrics" where
  "on_response cfg latency r m =
     (let m1 = m\<lparr>REQ_LATENCY := observe (REQ_LATENCY m) (model_labels cfg) latency\<rparr>;
          m2 = m1\<lparr>REQ_TOTAL := counter_inc (REQ_TOTAL m1) (status_labels cfg (str_int (r_status_code r)))\<rparr>;
          m3 = (if \<not> is_2xx (r_status_code r)
                then m2\<lparr>REQ_ERRORS := counter_inc (REQ_ERRORS m2) (status_labels cfg ''upstream_non_2xx'')\<rparr>
                else m2)
      in (Response (r_content r) (r_status_code r)
            (dict_get (r_headers r) ''content-type'' ''application/json''), m3))"

text \<open>The clause \<^verbatim>\<open>except httpx.ConnectError\<close> (lines 118 to 123).\<close>

definition on_connect_error :: "config \<Rightarrow> real \<Rightarrow> metrics \<Rightarrow> response \<times> metrics" where
  "on_connect_error cfg latency m =
     (let m1 = m\<lparr>REQ_LATENCY := observe (REQ_LATENCY m) (model_labels cfg) latency\<rparr>;
          m2 = m1\<lparr>REQ_TOTAL := counter_inc (REQ_TOTAL m1) (status_labels cfg ''502'')\<rparr>;
          m3 = m2\<lparr>REQ_ERRORS := counter_inc (REQ_ERRORS m2) (status_labels cfg ''connect_error'')\<rparr>;
          m4 = m3\<lparr>UPSTREAM_UP := gauge_set (UPSTREAM_UP m3) (model_labels cfg) 0\<rparr>
      in (PlainTextResponse ''Upstream MLflow server unreachable'' 502, m4))"

text \<open>The clause \<^verbatim>\<open>except Exception as e\<close> (lines 126 to 130).\<close>

definition on_exception :: "config \<Rightarrow> real \<Rightarrow> py_exception \<Rightarrow> metrics \<Rightarrow> response \<times> metrics" where
  "on_exception cfg latency e m =
     (let m1 = m\<lparr>REQ_LATENCY := observe (REQ_LATENCY m) (model_labels cfg) latency\<rparr>;
          m2 = m1\<lparr>REQ_TOTAL := counter_inc (REQ_TOTAL m1) (status_labels cfg ''500'')\<rparr>;
          m3 = m2\<lparr>REQ_ERRORS := counter_inc (REQ_ERRORS m2) (status_labels cfg ''unexpected_exception'')\<rparr>
      in (PlainTextResponse (''Internal proxy error: '' @ exc_name e) 500, m3))"

text \<open>The two \<^verbatim>\<open>except\<close> clauses, in the order of the source.\<close>

definition except_clauses :: "config \<Rightarrow> real \<Rightarrow> py_exception \<Rightarrow> metrics \<Rightarrow> response \<times> metrics" where
  "except_clauses cfg latency e m =
     (if exc_class e = ConnectError then on_connect_error cfg latency m
      else on_exception cfg latency e m)"

text \<open>
  The \<^verbatim>\<open>try\<close> statement (lines 105 to 133): the dispatch, the statements after it, the
  clause that takes an exception raised by either, and the \<^verbatim>\<open>finally\<close> clause, which
  runs after every branch. \<open>now\<close> is the reading of \<^verbatim>\<open>time.perf_counter()\<close> that follows
  the dispatch, on line 107 or in the clause that takes its exception; \<open>later\<close> is the
  further reading made in a clause when the exception comes from line 115, after line
  107 has read the clock.
\<close>

definition invocations_dispatch ::
  "config \<Rightarrow> http_post \<Rightarrow> real \<Rightarrow> real \<Rightarrow> real \<Rightarrow> bytes \<Rightarrow> (string \<rightharpoonup> string) \<Rightarrow> metrics
     \<Rightarrow> response \<times> metrics" where
  "invocations_dispatch cfg client_post start now later b hdrs m =
     (let (resp, m') =
            (case client_post (MLFLOW_SCORING_URL cfg) b hdrs of
               Inr r \<Rightarrow>
                 (case on_response cfg (now - start) r m of
                    (Inr resp, m1) \<Rightarrow> (resp, m1)
                  | (Inl e, m1) \<Rightarrow> except_clauses cfg (later - start) e m1)
             | Inl e \<Rightarrow> except_clauses cfg (now - start) e m)
      in (resp, m'\<lparr>INPROGRESS := gauge_dec (INPROGRESS m') (model_labels cfg)\<rparr>))"

text \<open>
  The handler. \<open>start\<close> is the reading of \<^verbatim>\<open>time.perf_counter()\<close> on entry. The result
  is the response, or the exception that leaves the handler, together with the registry
  afterwards.
\<close>

definition invocations ::
  "config \<Rightarrow> http_post \<Rightarrow> real \<Rightarrow> real \<Rightarrow> real \<Rightarrow> request \<Rightarrow> metrics
     \<Rightarrow> (py_exception + response) \<times> metrics" where
  "invocations cfg client_post start now later req m0 =
     (case invocations_receive cfg req m0 of
        Inl (e, m1) \<Rightarrow> (Inl e, m1)
      | Inr ((b, hdrs), m2) \<Rightarrow>
          (case invocations_dispatch cfg client_post start now later b hdrs m2 of
             (resp, m3) \<Rightarrow> (Inr resp, m3)))"

subsection \<open>The handler of the second exporter\<close>

text \<open>
  \<^verbatim>\<open>3.prometheus_exporter.py\<close> has a registry of its own. The two gauges of the system
  metrics thread are left out: \<^verbatim>\<open>predict\<close> never touches them.
\<close>

record predict_metrics =
  HTTP_REQUESTS_TOTAL :: "labels3 \<Rightarrow> nat"
  HTTP_REQUEST_ERRORS_TOTAL :: "labels3 \<Rightarrow> nat"
  REQUEST_LATENCY_SECONDS :: "labels2 \<Rightarrow> real list"
  MODEL_PREDICTIONS_TOTAL :: "string \<Rightarrow> nat"

definition predict_registry0 :: predict_metrics where
  "predict_registry0 =
     \<lparr>HTTP_REQUESTS_TOTAL = (\<lambda>_. 0), HTTP_REQUEST_ERRORS_TOTAL = (\<lambda>_. 0),
      REQUEST_LATENCY_SECONDS = (\<lambda>_. []), MODEL_PREDICTIONS_TOTAL = (\<lambda>_. 0)\<rparr>"

text \<open>
  A JSON document as Python's \<^verbatim>\<open>json\<close> module parses it; the parser accepts \<^verbatim>\<open>NaN\<close>,
  \<^verbatim>\<open>Infinity\<close> and \<^verbatim>\<open>-Infinity\<close>. \<^verbatim>\<open>JSONResponse\<close> renders its content in the
  constructor with \<^verbatim>\<open>allow_nan=False\<close>, which raises \<^verbatim>\<open>ValueError\<close> on a document that
  holds one of the three.
\<close>

datatype json =
    JNull
  | JBool bool
  | JInt int
  | JFloat real
  | JNaN
  | JInfinity
  | JNegInfinity
  | JString string
  | JArray "json list"
  | JObject "(string \<times> json) list"

primrec nan_free :: "json \<Rightarrow> bool" where
  "nan_free JNull = True"
| "nan_free (JBool b) = True"
| "nan_free (JInt i) = True"
| "nan_free (JFloat x) = True"
| "nan_free JNaN = False"
| "nan_free JInfinity = False"
| "nan_free JNegInfinity = False"
| "nan_free (JString s) = True"
| "nan_free (JArray js) = list_all id (map nan_free js)"
| "nan_free (JObject kvs) = list_all snd (map (map_prod id nan_free) kvs)"

text \<open>
  The upstream's response as \<^verbatim>\<open>requests\<close> hands it over: the status code, \<^verbatim>\<open>resp.text\<close>,
  and what \<^verbatim>\<open>resp.json()\<close> gives (the parsed document, or the exception it raises).
  \<^verbatim>\<open>resp.ok\<close> is false exactly when \<^verbatim>\<open>raise_for_status()\<close> would raise, that is for a
  status code from 400 to 599.
\<close>

record requests_response =
  resp_status_code :: int
  resp_text :: string
  resp_json :: "py_exception + json"

definition resp_ok :: "requests_response \<Rightarrow> bool" where
  "resp_ok resp = (\<not> (400 \<le> resp_status_code resp \<and> resp_status_code resp < 600))"

text \<open>
  The dictionaries \<^verbatim>\<open>predict\<close> passes to \<^verbatim>\<open>JSONResponse\<close>: the parsed upstream document,
  \<^verbatim>\<open>{"result": text}\<close>, \<^verbatim>\<open>{"status": "error", "message": m}\<close>, and the latter with
  \<^verbatim>\<open>upstream_status\<close> and \<^verbatim>\<open>upstream_body\<close> added.
\<close>

datatype json_content =
    Upstream_json json
  | Result_text string
  | Error_message string
  | Upstream_error string int string

record json_response =
  js_status_code :: int
  js_content :: json_content

type_synonym requests_post = "string \<Rightarrow> json \<Rightarrow> py_exception + requests_response"

definition predict_labels :: "string \<Rightarrow> labels3" where
  "predict_labels s = (''/predict'', ''POST'', s)"

text \<open>
  The handler. The inner \<^verbatim>\<open>try\<close> of lines 67 to 70 encloses both \<^verbatim>\<open>resp.json()\<close> and
  the \<^verbatim>\<open>JSONResponse\<close> built from it, so a document that does not parse and a document
  that does not render both end in the answer built from \<^verbatim>\<open>resp.text\<close>. The other
  contents are strings and integers, which always render.
\<close>

definition predict ::
  "string \<Rightarrow> requests_post \<Rightarrow> real \<Rightarrow> real \<Rightarrow> py_exception + json \<Rightarrow> predict_metrics
     \<Rightarrow> json_response \<times> predict_metrics" where
  "predict url requests_post start now request_json m =
     (case request_json of
        Inl e \<Rightarrow>
          (let m1 = m\<lparr>HTTP_REQUEST_ERRORS_TOTAL :=
                       counter_inc (HTTP_REQUEST_ERRORS_TOTAL m) (predict_labels ''invalid_json'')\<rparr>;
               m2 = m1\<lparr>HTTP_REQUESTS_TOTAL :=
                       counter_inc (HTTP_REQUESTS_TOTAL m1) (predict_labels ''400'')\<rparr>
           in (\<lparr>js_status_code = 400,
                js_content = Error_message (''Invalid JSON: '' @ exc_text e)\<rparr>, m2))
      | Inr payload \<Rightarrow>
          (case requests_post url payload of
             Inr resp \<Rightarrow>
               (let m1 = m\<lparr>REQUEST_LATENCY_SECONDS :=
                            observe (REQUEST_LATENCY_SECONDS m) (''/predict'', ''POST'') (now - start)\<rparr>;
                    m2 = m1\<lparr>HTTP_REQUESTS_TOTAL :=
                            counter_inc (HTTP_REQUESTS_TOTAL m1)
                              (predict_labels (str_int (resp_status_code resp)))\<rparr>
                in if resp_ok resp
                   then (let m3 = m2\<lparr>MODEL_PREDICTIONS_TOTAL :=
                                      counter_inc (MODEL_PREDICTIONS_TOTAL m2) ''success''\<rparr>
                         in case resp_json resp of
                              Inr j \<Rightarrow>
                                if nan_free j
                                then (\<lparr>js_status_code = 200, js_content = Upstream_json j\<rparr>, m3)
                                else (\<lparr>js_status_code = 200,
                                       js_content = Result_text (resp_text resp)\<rparr>, m3)
                            | Inl _ \<Rightarrow>
                                (\<lparr>js_status_code = 200, js_content = Result_text (resp_text resp)\<rparr>, m3))
                   else (let m3 = m2\<lparr>MODEL_PREDICTIONS_TOTAL :=
                                      counter_inc (MODEL_PREDICTIONS_TOTAL m2) ''failed''\<rparr>;
                             m4 = m3\<lparr>HTTP_REQUEST_ERRORS_TOTAL :=
                                      counter_inc (HTTP_REQUEST_ERRORS_TOTAL m3)
                                        (predict_labels ''mlflow_non_2xx'')\<rparr>
                         in (\<lparr>js_status_code = 502,
                              js_content = Upstream_error ''Upstream MLflow non-2xx''
                                             (resp_status_code resp) (resp_text resp)\<rparr>, m4)))
           | Inl e \<Rightarrow>
               (let m1 = m\<lparr>REQUEST_LATENCY_SECONDS :=
                            observe (REQUEST_LATENCY_SECONDS m) (''/predict'', ''POST'') (now - start)\<rparr>
                in if exc_class e = Timeout
                   then (let m2 = m1\<lparr>HTTP_REQUESTS_TOTAL :=
                                      counter_inc (HTTP_REQUESTS_TOTAL m1) (predict_labels ''504'')\<rparr>;
                             m3 = m2\<lparr>HTTP_REQUEST_ERRORS_TOTAL :=
                                      counter_inc (HTTP_REQUEST_ERRORS_TOTAL m2) (predict_labels ''timeout'')\<rparr>;
                             m4 = m3\<lparr>MODEL_PREDICTIONS_TOTAL :=
                                      counter_inc (MODEL_PREDICTIONS_TOTAL m3) ''failed''\<rparr>
                         in (\<lparr>js_status_code = 504,
                              js_content = Error_message ''Timeout to MLflow invocations''\<rparr>, m4))
                   else (let m2 = m1\<lparr>HTTP_REQUESTS_TOTAL :=
                                      counter_inc (HTTP_REQUESTS_TOTAL m1) (predict_labels ''500'')\<rparr>;
                             m3 = m2\<lparr>HTTP_REQUEST_ERRORS_TOTAL :=
                                      counter_inc (HTTP_REQUEST_ERRORS_TOTAL m2) (predict_labels ''exception'')\<rparr>;
                             m4 = m3\<lparr>MODEL_PREDICTIONS_TOTAL :=
                                      counter_inc (MODEL_PREDICTIONS_TOTAL m3) ''failed''\<rparr>
                         in (\<lparr>js_status_code = 500, js_content = Error_message (exc_text e)\<rparr>, m4)))))"

subsection \<open>Sample inputs\<close>

text \<open>Concrete requests, upstream behaviours and exceptions on which the results are evaluated.\<close>

definition json_request :: request where
  "json_request = \<lparr>body = Inr ''{}'', headers = [''content-type'' \<mapsto> ''application/json'']\<rparr>"

definition disconnected_request :: request where
  "disconnected_request =
     \<lparr>body = Inl (PyExc OtherException ''ClientDisconnect'' []), headers = Map.empty\<rparr>"

definition upstream_returns :: "upstream_response \<Rightarrow> http_post" where
  "upstream_returns r = (\<lambda>url b hdrs. Inr r)"

definition upstream_raises :: "py_exception \<Rightarrow> http_post" where
  "upstream_raises e = (\<lambda>url b hdrs. Inl e)"

definition prediction_response :: upstream_response where
  "prediction_response =
     \<lparr>r_status_code = 200, r_content = ''[1]'', r_headers = [''content-type'' \<mapsto> ''application/json'']\<rparr>"







definition read_timeout :: py_exception where
  "read_timeout = PyExc Timeout ''ReadTimeout'' ''The read operation timed out''"

definition protocol_error :: py_exception where
  "protocol_error = PyExc OtherException ''RemoteProtocolError'' ''Server disconnected''"




definition mlflow_raises :: "py_exception \<Rightarrow> requests_post" where
  "mlflow_raises e = (\<lambda>url payload. Inl e)"





definition requests_connection_error :: py_exception where
  "requests_connection_error =
     PyExc OtherException ''ConnectionError''
       ''HTTPConnectionPool(host=127.0.0.1, port=5002): Max retries exceeded with url: /invocations''"

definition requests_read_timeout :: py_exception where
  "requests_read_timeout =
     PyExc Timeout ''ReadTimeout'' ''HTTPConnectionPool(host=127.0.0.1, port=5002): Read timed out.''"


definition predict_url :: string where
  "predict_url = ''http://127.0.0.1:5002/invocations''"

section \<open>Properties\<close>

subsection \<open>The handler, path by path\<close>

lemma str_int_examples:
  "str_int 200 = ''200''" "str_int 204 = ''204''" "str_int 400 = ''400''"
  "str_int 404 = ''404''" "str_int 201 = ''201''" "str_int 304 = ''304''"
  by code_simp+



lemma invocations_body_read:
  assumes "body req = Inr b"
  shows "invocations cfg client_post start now later req m =
           (case invocations_dispatch cfg client_post start now later b
                   [''Content-Type'' \<mapsto> dict_get (headers req) ''content-type'' ''application/json'']
                   (m\<lparr>INPROGRESS := gauge_inc (INPROGRESS m) (model_labels cfg),
                      PAYLOAD_BYTES := observe (PAYLOAD_BYTES m) (model_labels cfg) (length b)\<rparr>) of
              (resp, m') \<Rightarrow> (Inr resp, m'))"
  using assms by (simp add: invocations_def invocations_receive_def Let_def)

lemma invocations_body_fault:
  assumes "body req = Inl e"
  shows "invocations cfg client_post start now later req m =
           (Inl e, m\<lparr>INPROGRESS := gauge_inc (INPROGRESS m) (model_labels cfg)\<rparr>)"
  using assms by (simp add: invocations_def invocations_receive_def Let_def)

lemma inc_dec_cancel: "gauge_dec (gauge_inc g l) l = g"
  by (simp add: gauge_dec_def gauge_inc_def)

text \<open>
  The whole effect of a request whose body was read, for each outcome of the dispatch. When
  the upstream answers there are two: the response is built and relayed, or building it
  raises inside the \<^verbatim>\<open>try\<close> statement and the generic clause takes over, after the
  latency and the request have been recorded once already.
\<close>

lemma invocations_on_response:
  assumes "body req = Inr b"
    and "client_post (MLFLOW_SCORING_URL cfg) b
           [''Content-Type'' \<mapsto> dict_get (headers req) ''content-type'' ''application/json''] = Inr r"
    and "latin1_encodable
           (content_type_header (dict_get (r_headers r) ''content-type'' ''application/json''))"
  shows "invocations cfg client_post start now later req m =
           (Inr \<lparr>content = r_content r, status_code = r_status_code r,
                 media_type = dict_get (r_headers r) ''content-type'' ''application/json''\<rparr>,
            m\<lparr>PAYLOAD_BYTES := observe (PAYLOAD_BYTES m) (model_labels cfg) (length b),
              REQ_LATENCY := observe (REQ_LATENCY m) (model_labels cfg) (now - start),
              REQ_TOTAL := counter_inc (REQ_TOTAL m) (status_labels cfg (str_int (r_status_code r))),
              REQ_ERRORS := (if is_2xx (r_status_code r) then REQ_ERRORS m
                             else counter_inc (REQ_ERRORS m) (status_labels cfg ''upstream_non_2xx''))\<rparr>)"
  using assms
  by (simp add: invocations_body_read invocations_dispatch_def on_response_def Response_def
      Let_def inc_dec_cancel)

lemma invocations_on_response_not_built:
  assumes "body req = Inr b"
    and "client_post (MLFLOW_SCORING_URL cfg) b
           [''Content-Type'' \<mapsto> dict_get (headers req) ''content-type'' ''application/json''] = Inr r"
    and "\<not> latin1_encodable
           (content_type_header (dict_get (r_headers r) ''content-type'' ''application/json''))"
  shows "invocations cfg client_post start now later req m =
           (Inr (PlainTextResponse ''Internal proxy error: UnicodeEncodeError'' 500),
            m\<lparr>PAYLOAD_BYTES := observe (PAYLOAD_BYTES m) (model_labels cfg) (length b),
              REQ_LATENCY :=
                observe (observe (REQ_LATENCY m) (model_labels cfg) (now - start))
                  (model_labels cfg) (later - start),
              REQ_TOTAL :=
                counter_inc
                  (counter_inc (REQ_TOTAL m) (status_labels cfg (str_int (r_status_code r))))
                  (status_labels cfg ''500''),
              REQ_ERRORS :=
                counter_inc
                  (if is_2xx (r_status_code r) then REQ_ERRORS m
                   else counter_inc (REQ_ERRORS m) (status_labels cfg ''upstream_non_2xx''))
                  (status_labels cfg ''unexpected_exception'')\<rparr>)"
  using assms
  by (simp add: invocations_body_read invocations_dispatch_def on_response_def Response_def
      except_clauses_def on_exception_def Let_def inc_dec_cancel)

lemma invocations_on_connect_error:
  assumes "body req = Inr b"
    and "client_post (MLFLOW_SCORING_URL cfg) b
           [''Content-Type'' \<mapsto> dict_get (headers req) ''content-type'' ''application/json''] = Inl e"
    and "exc_class e = ConnectError"
  shows "invocations cfg client_post start now later req m =
           (Inr (PlainTextResponse ''Upstream MLflow server unreachable'' 502),
            m\<lparr>PAYLOAD_BYTES := observe (PAYLOAD_BYTES m) (model_labels cfg) (length b),
              REQ_LATENCY := observe (REQ_LATENCY m) (model_labels cfg) (now - start),
              REQ_TOTAL := counter_inc (REQ_TOTAL m) (status_labels cfg ''502''),
              REQ_ERRORS := counter_inc (REQ_ERRORS m) (status_labels cfg ''connect_error''),
              UPSTREAM_UP := gauge_set (UPSTREAM_UP m) (model_labels cfg) 0\<rparr>)"
  using assms
  by (simp add: invocations_body_read invocations_dispatch_def except_clauses_def
      on_connect_error_def Let_def inc_dec_cancel)

lemma invocations_on_exception:
  assumes "body req = Inr b"
    and "client_post (MLFLOW_SCORING_URL cfg) b
           [''Content-Type'' \<mapsto> dict_get (headers req) ''content-type'' ''application/json''] = Inl e"
    and "exc_class e \<noteq> ConnectError"
  shows "invocations cfg client_post start now later req m =
           (Inr (PlainTextResponse (''Internal proxy error: '' @ exc_name e) 500),
            m\<lparr>PAYLOAD_BYTES := observe (PAYLOAD_BYTES m) (model_labels cfg) (length b),
              REQ_LATENCY := observe (REQ_LATENCY m) (model_labels cfg) (now - start),
              REQ_TOTAL := counter_inc (REQ_TOTAL m) (status_labels cfg ''500''),
              REQ_ERRORS := counter_inc (REQ_ERRORS m) (status_labels cfg ''unexpected_exception'')\<rparr>)"
  using assms
  by (simp add: invocations_body_read invocations_dispatch_def except_clauses_def
      on_exception_def Let_def inc_dec_cancel)

text \<open>The four paths of a request whose body was read cover every case.\<close>

lemma invocations_paths:
  assumes "body req = Inr b"
  obtains
    (relayed) r where
      "client_post (MLFLOW_SCORING_URL cfg) b
         [''Content-Type'' \<mapsto> dict_get (headers req) ''content-type'' ''application/json''] = Inr r"
      "latin1_encodable
         (content_type_header (dict_get (r_headers r) ''content-type'' ''application/json''))"
  | (not_built) r where
      "client_post (MLFLOW_SCORING_URL cfg) b
         [''Content-Type'' \<mapsto> dict_get (headers req) ''content-type'' ''application/json''] = Inr r"
      "\<not> latin1_encodable
         (content_type_header (dict_get (r_headers r) ''content-type'' ''application/json''))"
  | (connect_error) e where
      "client_post (MLFLOW_SCORING_URL cfg) b
         [''Content-Type'' \<mapsto> dict_get (headers req) ''content-type'' ''application/json''] = Inl e"
      "exc_class e = ConnectError"
  | (exception) e where
      "client_post (MLFLOW_SCORING_URL cfg) b
         [''Content-Type'' \<mapsto> dict_get (headers req) ''content-type'' ''application/json''] = Inl e"
      "exc_class e \<noteq> ConnectError"
  by (cases "client_post (MLFLOW_SCORING_URL cfg) b
         [''Content-Type'' \<mapsto> dict_get (headers req) ''content-type'' ''application/json'']") blast+

subsection \<open>The in-progress gauge\<close>

text \<open>
  Once the body has been read the handler is inside the \<^verbatim>\<open>try\<close> statement, and the
  \<^verbatim>\<open>finally\<close> clause brings the gauge back to its value before the request, whatever the
  dispatch does.
\<close>

lemma inprogress_restored_when_body_read:
  assumes "body req = Inr b"
  shows "INPROGRESS (snd (invocations cfg client_post start now later req m)) = INPROGRESS m"
  using assms
proof (cases rule: invocations_paths [where client_post = client_post and cfg = cfg])
  case (relayed r)
  with assms show ?thesis by (simp add: invocations_on_response)
next
  case (not_built r)
  with assms show ?thesis by (simp add: invocations_on_response_not_built)
next
  case (connect_error e)
  with assms show ?thesis by (simp add: invocations_on_connect_error)
next
  case (exception e)
  with assms show ?thesis by (simp add: invocations_on_exception)
qed

text \<open>
  Claim C1 asks for the gauge to be back at its pre-request value on every exit path,
  a failure of the body read included. The body is read between the increment and the
  \<^verbatim>\<open>try\<close> statement: when \<^verbatim>\<open>await request.body()\<close> raises, as it does for a client
  that disconnects, the exception leaves the handler, the \<^verbatim>\<open>finally\<close> clause never runs,
  and the gauge stays one above its value before the request.
\<close>

theorem inprogress_leaks_on_body_fault:
  "fst (invocations default_config (upstream_returns prediction_response) 0 1 1
          disconnected_request registry0) =
     Inl (PyExc OtherException ''ClientDisconnect'' [])
   \<and> INPROGRESS registry0 (model_labels default_config) = 0
   \<and> INPROGRESS (snd (invocations default_config (upstream_returns prediction_response) 0 1 1
          disconnected_request registry0)) (model_labels default_config) = 1"
  by (simp add: invocations_body_fault disconnected_request_def registry0_def gauge_inc_def)

subsection \<open>Latency and request count\<close>

text \<open>
  A request whose body was read records one latency observation and one increment of the
  request counter, under the label of the status it ends with, provided that the response
  to relay can be built. When building it raises, the generic clause records both a
  second time.
\<close>

lemma one_latency_one_total_when_response_built:
  assumes "body req = Inr b"
    and "\<And>r. client_post (MLFLOW_SCORING_URL cfg) b
           [''Content-Type'' \<mapsto> dict_get (headers req) ''content-type'' ''application/json''] = Inr r
         \<Longrightarrow> latin1_encodable
           (content_type_header (dict_get (r_headers r) ''content-type'' ''application/json''))"
  shows "REQ_LATENCY (snd (invocations cfg client_post start now later req m)) =
           observe (REQ_LATENCY m) (model_labels cfg) (now - start)
       \<and> (\<exists>code. REQ_TOTAL (snd (invocations cfg client_post start now later req m)) =
                    counter_inc (REQ_TOTAL m) (status_labels cfg code))"
  using assms(1)
proof (cases rule: invocations_paths [where client_post = client_post and cfg = cfg])
  case (relayed r)
  with assms(1) show ?thesis by (auto simp add: invocations_on_response)
next
  case (not_built r)
  with assms(2) show ?thesis by blast
next
  case (connect_error e)
  with assms(1) show ?thesis by (auto simp add: invocations_on_connect_error)
next
  case (exception e)
  with assms(1) show ?thesis by (auto simp add: invocations_on_exception)
qed

lemma two_latencies_two_totals_when_response_not_built:
  assumes "body req = Inr b"
    and "client_post (MLFLOW_SCORING_URL cfg) b
           [''Content-Type'' \<mapsto> dict_get (headers req) ''content-type'' ''application/json''] = Inr r"
    and "\<not> latin1_encodable
           (content_type_header (dict_get (r_headers r) ''content-type'' ''application/json''))"
  shows "REQ_LATENCY (snd (invocations cfg client_post start now later req m)) (model_labels cfg) =
           REQ_LATENCY m (model_labels cfg) @ [now - start, later - start]
       \<and> REQ_TOTAL (snd (invocations cfg client_post start now later req m)) =
           counter_inc (counter_inc (REQ_TOTAL m) (status_labels cfg (str_int (r_status_code r))))
             (status_labels cfg ''500'')"
  using assms by (simp add: invocations_on_response_not_built observe_def)

text \<open>
  Claim C3 asks for exactly one latency observation and one increment of the request
  counter for every request, a fault of the handler included. When the body read raises,
  the handler is left before the \<^verbatim>\<open>try\<close> statement whose clauses record them: no latency
  is observed and no child of the request counter moves.
\<close>

theorem nothing_recorded_on_body_fault:
  "REQ_LATENCY (snd (invocations default_config (upstream_returns prediction_response) 0 1 1
          disconnected_request registry0)) (model_labels default_config) = []
   \<and> REQ_TOTAL (snd (invocations default_config (upstream_returns prediction_response) 0 1 1
          disconnected_request registry0)) = (\<lambda>l. 0)"
  by (simp add: invocations_body_fault disconnected_request_def registry0_def)

subsection \<open>Connect failure\<close>




subsection \<open>Payload size\<close>

text \<open>
  Claim C9: when the body of a request is read, the part of the handler that runs before
  the dispatch appends one observation to the payload histogram, the length of the bytes
  read and not anything the headers declare; and whatever the dispatch then does, the
  histogram after the request holds exactly that one observation more.
\<close>

theorem payload_size_observed_before_dispatch:
  assumes "body req = Inr b"
  shows "invocations_receive cfg req m =
           Inr ((b, [''Content-Type'' \<mapsto> dict_get (headers req) ''content-type'' ''application/json'']),
                m\<lparr>INPROGRESS := gauge_inc (INPROGRESS m) (model_labels cfg),
                  PAYLOAD_BYTES := (PAYLOAD_BYTES m)(model_labels cfg :=
                     PAYLOAD_BYTES m (model_labels cfg) @ [length b])\<rparr>)
       \<and> PAYLOAD_BYTES (snd (invocations cfg client_post start now later req m)) =
           (PAYLOAD_BYTES m)(model_labels cfg := PAYLOAD_BYTES m (model_labels cfg) @ [length b])"
proof
  show "invocations_receive cfg req m =
           Inr ((b, [''Content-Type'' \<mapsto> dict_get (headers req) ''content-type'' ''application/json'']),
                m\<lparr>INPROGRESS := gauge_inc (INPROGRESS m) (model_labels cfg),
                  PAYLOAD_BYTES := (PAYLOAD_BYTES m)(model_labels cfg :=
                     PAYLOAD_BYTES m (model_labels cfg) @ [length b])\<rparr>)"
    using assms by (simp add: invocations_receive_def Let_def observe_def)
next
  show "PAYLOAD_BYTES (snd (invocations cfg client_post start now later req m)) =
           (PAYLOAD_BYTES m)(model_labels cfg := PAYLOAD_BYTES m (model_labels cfg) @ [length b])"
    using assms
  proof (cases rule: invocations_paths [where client_post = client_post and cfg = cfg])
    case (relayed r)
    with assms show ?thesis by (simp add: invocations_on_response observe_def)
  next
    case (not_built r)
    with assms show ?thesis by (simp add: invocations_on_response_not_built observe_def)
  next
    case (connect_error e)
    with assms show ?thesis by (simp add: invocations_on_connect_error observe_def)
  next
    case (exception e)
    with assms show ?thesis by (simp add: invocations_on_exception observe_def)
  qed
qed

theorem payload_size_observed_before_dispatch_witness:
  "PAYLOAD_BYTES (snd (invocations default_config (upstream_raises read_timeout) 0 30 30
        \<lparr>body = Inr ''12345'', headers = [''content-length'' \<mapsto> ''99'']\<rparr> registry0))
      (model_labels default_config) = [5]
   \<and> invocations_receive default_config
        \<lparr>body = Inr ''12345'', headers = [''content-length'' \<mapsto> ''99'']\<rparr> registry0 =
      Inr ((''12345'', [''Content-Type'' \<mapsto> ''application/json'']),
           registry0\<lparr>INPROGRESS := gauge_inc (INPROGRESS registry0) (model_labels default_config),
                     PAYLOAD_BYTES := (PAYLOAD_BYTES registry0)(model_labels default_config := [5])\<rparr>)"
  using payload_size_observed_before_dispatch [of
      "\<lparr>body = Inr ''12345'', headers = [''content-length'' \<mapsto> ''99'']\<rparr>" "''12345''"
      default_config registry0 "upstream_raises read_timeout" 0 30 30]
  by (simp add: registry0_def dict_get_def eval_nat_numeral)

subsection \<open>The generic exception clause\<close>

text \<open>
  Claim C10: the clause \<^verbatim>\<open>except Exception\<close>, which takes timeouts and every other
  failure that is not a connect error, changes the latency histogram, the request counter
  and the error counter and nothing else; the connect-error clause is the one that writes
  the upstream gauge. For the whole request on that path the upstream gauge is as it was
  before, and the registry differs from the one before only in the payload observation
  made before the dispatch and in those three metrics.
\<close>

theorem generic_exception_frame:
  assumes "body req = Inr b"
    and "client_post (MLFLOW_SCORING_URL cfg) b
           [''Content-Type'' \<mapsto> dict_get (headers req) ''content-type'' ''application/json''] = Inl e"
    and "exc_class e \<noteq> ConnectError"
  shows "snd (on_exception cfg latency e m') =
           m'\<lparr>REQ_LATENCY := observe (REQ_LATENCY m') (model_labels cfg) latency,
              REQ_TOTAL := counter_inc (REQ_TOTAL m') (status_labels cfg ''500''),
              REQ_ERRORS := counter_inc (REQ_ERRORS m') (status_labels cfg ''unexpected_exception'')\<rparr>
       \<and> UPSTREAM_UP (snd (on_connect_error cfg latency m')) = (UPSTREAM_UP m')(model_labels cfg := 0)
       \<and> UPSTREAM_UP (snd (invocations cfg client_post start now later req m)) = UPSTREAM_UP m
       \<and> snd (invocations cfg client_post start now later req m) =
           m\<lparr>PAYLOAD_BYTES := observe (PAYLOAD_BYTES m) (model_labels cfg) (length b),
             REQ_LATENCY := observe (REQ_LATENCY m) (model_labels cfg) (now - start),
             REQ_TOTAL := counter_inc (REQ_TOTAL m) (status_labels cfg ''500''),
             REQ_ERRORS := counter_inc (REQ_ERRORS m) (status_labels cfg ''unexpected_exception'')\<rparr>"
  using assms
  by (simp add: invocations_on_exception on_exception_def on_connect_error_def Let_def gauge_set_def)

theorem generic_exception_frame_witness:
  "UPSTREAM_UP (snd (invocations default_config (upstream_raises read_timeout) 0 30 30 json_request
       (registry0\<lparr>UPSTREAM_UP := (\<lambda>l. 1)\<rparr>))) (model_labels default_config) = 1
   \<and> UPSTREAM_UP (snd (invocations default_config (upstream_raises protocol_error) 0 30 30 json_request
       (registry0\<lparr>UPSTREAM_UP := (\<lambda>l. 1)\<rparr>))) (model_labels default_config) = 1
   \<and> INPROGRESS (snd (invocations default_config (upstream_raises read_timeout) 0 30 30 json_request
       (registry0\<lparr>UPSTREAM_UP := (\<lambda>l. 1)\<rparr>))) (model_labels default_config) = 0"
  using generic_exception_frame [of json_request "''{}''" "upstream_raises read_timeout"
      default_config read_timeout 0 "registry0\<lparr>UPSTREAM_UP := (\<lambda>l. 1)\<rparr>" 0 30 30
      "registry0\<lparr>UPSTREAM_UP := (\<lambda>l. 1)\<rparr>"]
    generic_exception_frame [of json_request "''{}''" "upstream_raises protocol_error"
      default_config protocol_error 0 "registry0\<lparr>UPSTREAM_UP := (\<lambda>l. 1)\<rparr>" 0 30 30
      "registry0\<lparr>UPSTREAM_UP := (\<lambda>l. 1)\<rparr>"]
  by (simp add: json_request_def upstream_raises_def read_timeout_def protocol_error_def registry0_def)

subsection \<open>The second exporter, path by path\<close>


lemma predict_on_exception:
  assumes "requests_post url payload = Inl e"
  shows "predict url requests_post start now (Inr payload) m =
           (\<lparr>js_status_code = (if exc_class e = Timeout then 504 else 500),
             js_content =
               Error_message (if exc_class e = Timeout then ''Timeout to MLflow invocations''
                              else exc_text e)\<rparr>,
            m\<lparr>REQUEST_LATENCY_SECONDS :=
                 observe (REQUEST_LATENCY_SECONDS m) (''/predict'', ''POST'') (now - start),
              HTTP_REQUESTS_TOTAL :=
                 counter_inc (HTTP_REQUESTS_TOTAL m)
                   (predict_labels (if exc_class e = Timeout then ''504'' else ''500'')),
              HTTP_REQUEST_ERRORS_TOTAL :=
                 counter_inc (HTTP_REQUEST_ERRORS_TOTAL m)
                   (predict_labels (if exc_class e = Timeout then ''timeout'' else ''exception'')),
              MODEL_PREDICTIONS_TOTAL := counter_inc (MODEL_PREDICTIONS_TOTAL m) ''failed''\<rparr>)"
  using assms by (simp add: predict_def Let_def)

subsection \<open>What the caller gets back when the upstream answers\<close>




subsection \<open>Timeouts and other transport failures\<close>

text \<open>
  Claim C5, as the code has it. In \<^verbatim>\<open>invocations\<close> every exception of the dispatch other
  than a connect error, a timeout included, is counted under the error type
  \<^verbatim>\<open>unexpected_exception\<close> and under status 500, and the caller gets status 500 with the
  plain text \<^verbatim>\<open>Internal proxy error: \<close> followed by the exception's class name. In
  \<^verbatim>\<open>predict\<close> a timeout is counted under the error type \<^verbatim>\<open>timeout\<close> and answered with
  status 504, every other exception is counted under the error type \<^verbatim>\<open>exception\<close> and
  answered with status 500; both answers are JSON objects.
\<close>

theorem transport_failure_handling:
  "(body req = Inr b
      \<and> client_post (MLFLOW_SCORING_URL cfg) b
          [''Content-Type'' \<mapsto> dict_get (headers req) ''content-type'' ''application/json''] = Inl e
      \<and> exc_class e \<noteq> ConnectError
    \<longrightarrow> fst (invocations cfg client_post start now later req m) =
          Inr \<lparr>content = ''Internal proxy error: '' @ exc_name e, status_code = 500,
               media_type = ''text/plain''\<rparr>
      \<and> REQ_TOTAL (snd (invocations cfg client_post start now later req m)) =
          (REQ_TOTAL m)(status_labels cfg ''500'' := REQ_TOTAL m (status_labels cfg ''500'') + 1)
      \<and> REQ_ERRORS (snd (invocations cfg client_post start now later req m)) =
          (REQ_ERRORS m)(status_labels cfg ''unexpected_exception'' :=
             REQ_ERRORS m (status_labels cfg ''unexpected_exception'') + 1))
   \<and> (requests_post url payload = Inl e'
    \<longrightarrow> fst (predict url requests_post start now (Inr payload) pm) =
          (if exc_class e' = Timeout
           then \<lparr>js_status_code = 504, js_content = Error_message ''Timeout to MLflow invocations''\<rparr>
           else \<lparr>js_status_code = 500, js_content = Error_message (exc_text e')\<rparr>)
      \<and> HTTP_REQUEST_ERRORS_TOTAL (snd (predict url requests_post start now (Inr payload) pm)) =
          (if exc_class e' = Timeout
           then (HTTP_REQUEST_ERRORS_TOTAL pm)(predict_labels ''timeout'' :=
                  HTTP_REQUEST_ERRORS_TOTAL pm (predict_labels ''timeout'') + 1)
           else (HTTP_REQUEST_ERRORS_TOTAL pm)(predict_labels ''exception'' :=
                  HTTP_REQUEST_ERRORS_TOTAL pm (predict_labels ''exception'') + 1)))"
  by (simp add: invocations_on_exception predict_on_exception PlainTextResponse_def counter_inc_def)

theorem transport_failure_handling_witness:
  "fst (invocations default_config (upstream_raises read_timeout) 0 30 30 json_request registry0) =
     Inr \<lparr>content = ''Internal proxy error: ReadTimeout'', status_code = 500,
          media_type = ''text/plain''\<rparr>
   \<and> REQ_ERRORS (snd (invocations default_config (upstream_raises read_timeout) 0 30 30 json_request
        registry0)) (status_labels default_config ''unexpected_exception'') = 1
   \<and> fst (predict predict_url (mlflow_raises requests_read_timeout) 0 30 (Inr (JObject []))
        predict_registry0) =
     \<lparr>js_status_code = 504, js_content = Error_message ''Timeout to MLflow invocations''\<rparr>
   \<and> HTTP_REQUEST_ERRORS_TOTAL (snd (predict predict_url (mlflow_raises requests_read_timeout) 0 30
        (Inr (JObject [])) predict_registry0)) (predict_labels ''timeout'') = 1"
  using transport_failure_handling [where req = json_request and b = "''{}''"
      and client_post = "upstream_raises read_timeout" and cfg = default_config
      and e = read_timeout and start = 0 and now = 30 and later = 30 and m = registry0
      and requests_post = "mlflow_raises requests_read_timeout" and url = predict_url
      and payload = "JObject []" and e' = requests_read_timeout and pm = predict_registry0]
  by (simp add: json_request_def upstream_raises_def read_timeout_def registry0_def
      mlflow_raises_def requests_read_timeout_def predict_registry0_def)

text \<open>
  A read timeout in \<^verbatim>\<open>invocations\<close> leaves the error type \<^verbatim>\<open>timeout\<close> untouched and
  counts under \<^verbatim>\<open>unexpected_exception\<close>; a connection error in \<^verbatim>\<open>predict\<close> leaves the
  error type \<^verbatim>\<open>unexpected_exception\<close> untouched and counts under \<^verbatim>\<open>exception\<close>.
\<close>

theorem timeout_error_type_counterexample:
  "exc_class read_timeout = Timeout
   \<and> REQ_ERRORS (snd (invocations default_config (upstream_raises read_timeout) 0 30 30 json_request
        registry0)) (status_labels default_config ''timeout'') = 0
   \<and> REQ_ERRORS (snd (invocations default_config (upstream_raises read_timeout) 0 30 30 json_request
        registry0)) (status_labels default_config ''unexpected_exception'') = 1
   \<and> exc_class requests_connection_error = OtherException
   \<and> HTTP_REQUEST_ERRORS_TOTAL (snd (predict predict_url (mlflow_raises requests_connection_error)
        0 1 (Inr (JObject [])) predict_registry0)) (predict_labels ''unexpected_exception'') = 0
   \<and> HTTP_REQUEST_ERRORS_TOTAL (snd (predict predict_url (mlflow_raises requests_connection_error)
        0 1 (Inr (JObject [])) predict_registry0)) (predict_labels ''exception'') = 1"
  by (simp add: invocations_on_exception [where b = "''{}''" and e = read_timeout]
      predict_on_exception [where e = requests_connection_error]
      json_request_def upstream_raises_def read_timeout_def registry0_def
      mlflow_raises_def requests_connection_error_def predict_registry0_def
      counter_inc_def status_labels_def predict_labels_def)

subsection \<open>Upstream answers outside the 2xx range\<close>




subsection \<open>The upstream gauge\<close>




subsection \<open>What a failed dispatch shows the caller\<close>

text \<open>
  In \<^verbatim>\<open>invocations\<close> the body after a failed dispatch is a fixed text for a connect error
  and otherwise \<^verbatim>\<open>Internal proxy error: \<close> followed by the exception's class name; the
  exception's message is no part of it. In \<^verbatim>\<open>predict\<close> the clause for a timeout answers
  with a fixed text as well.
\<close>

lemma invocations_failure_body:
  assumes "body req = Inr b"
    and "client_post (MLFLOW_SCORING_URL cfg) b
           [''Content-Type'' \<mapsto> dict_get (headers req) ''content-type'' ''application/json''] = Inl e"
  shows "fst (invocations cfg client_post start now later req m) =
          Inr \<lparr>content = (if exc_class e = ConnectError then ''Upstream MLflow server unreachable''
                          else ''Internal proxy error: '' @ exc_name e),
               status_code = (if exc_class e = ConnectError then 502 else 500),
               media_type = ''text/plain''\<rparr>"
  using assms
  by (simp add: invocations_on_connect_error invocations_on_exception PlainTextResponse_def)

lemma predict_timeout_body:
  assumes "requests_post url payload = Inl e" and "exc_class e = Timeout"
  shows "js_content (fst (predict url requests_post start now (Inr payload) pm)) =
           Error_message ''Timeout to MLflow invocations''"
  using assms by (simp add: predict_on_exception)

text \<open>
  Claim C8 asks that no response to a failed dispatch carries the exception's message.
  The generic clause of \<^verbatim>\<open>predict\<close> puts \<^verbatim>\<open>str(e)\<close> into the response: for a connection
  error of \<^verbatim>\<open>requests\<close> the caller reads the upstream's host and port and the path
  requested there.
\<close>

theorem predict_leaks_exception_text:
  "exc_text requests_connection_error =
     ''HTTPConnectionPool(host=127.0.0.1, port=5002): Max retries exceeded with url: /invocations''
   \<and> fst (predict predict_url (mlflow_raises requests_connection_error) 0 1 (Inr (JObject []))
        predict_registry0) =
     \<lparr>js_status_code = 500,
      js_content = Error_message
        ''HTTPConnectionPool(host=127.0.0.1, port=5002): Max retries exceeded with url: /invocations''\<rparr>"
  by (simp add: predict_on_exception [where e = requests_connection_error]
      mlflow_raises_def requests_connection_error_def)

end
